theory Spec2Isabelle
  imports Main
begin

section \<open>The Python objects that reach the converters\<close>

text \<open>
  \<^verbatim>\<open>libbtrfsutil/python/module.c\<close> is written against the CPython C API. A Python object is
  modelled by the answers it gives to the API calls that \<^verbatim>\<open>fd_converter\<close> and
  \<^verbatim>\<open>path_converter\<close> make on it; reference counts are not modelled.

  A C string (\<^verbatim>\<open>char *\<close>) and the contents of a \<^verbatim>\<open>bytes\<close> object are lists of 8-bit
  characters; the terminator is \<open>CHR 0x00\<close>.
\<close>

type_synonym bytes = string

text \<open>
  Type objects. The built-in ones are CPython's; \<open>HeapType n b\<close> is a class \<open>n\<close> defined in
  Python code with base \<open>b\<close>; the last two are the static types of this extension module.
\<close>

datatype pytype =
    PyBaseObject_Type
  | PyExc_BaseException
  | PyExc_Exception
  | PyExc_OSError
  | PyExc_TypeError
  | PyExc_ValueError
  | PyExc_ArithmeticError
  | PyExc_OverflowError
  | HeapType string pytype
  | BtrfsUtilError_type
  | QgroupInherit_type

text \<open>A pending exception: its class and its message.\<close>

datatype pyexc = PyErr (exc_type: pytype) (exc_msg: string)

text \<open>
  The outcome of \<^verbatim>\<open>_PyObject_LookupSpecial(o, &PyId___fspath__)\<close> followed by the call of
  what it found: \<open>NotFound\<close> when the lookup returns \<^verbatim>\<open>NULL\<close>, otherwise what
  \<^verbatim>\<open>PyObject_CallFunctionObjArgs(func, NULL)\<close> does: raise, or return an object.
\<close>

datatype 'o special = NotFound | Found "pyexc + 'o"

text \<open>
  What an object is to \<^verbatim>\<open>PyBytes_Check\<close> and \<^verbatim>\<open>PyUnicode_Check\<close>:
  \<^item> \<open>Bytes bs\<close>: it passes \<^verbatim>\<open>PyBytes_Check\<close> and its contents are \<open>bs\<close>;
  \<^item> \<open>Unicode r\<close>: it passes \<^verbatim>\<open>PyUnicode_Check\<close>, and \<open>r\<close> is what encoding it to the
    file-system encoding does: raise, or give the encoded bytes;
  \<^item> \<open>Plain\<close>: it passes neither.
\<close>

datatype pykind = Bytes bytes | Unicode "pyexc + bytes" | Plain

text \<open>
  An object: the name of its type (\<^verbatim>\<open>Py_TYPE(o)->tp_name\<close>), its kind, its \<^verbatim>\<open>nb_index\<close> slot
  (\<open>None\<close> when the type has none, otherwise what the conversion to a Python integer
  does: raise, or give a value) and its \<^verbatim>\<open>__fspath__\<close> hook. A subclass of \<^verbatim>\<open>bytes\<close> or
  \<^verbatim>\<open>str\<close> can have an index and a hook like any other object.
\<close>

datatype pyobject =
  PyObject (tp_name: string) (ob_kind: pykind) (nb_index: "(pyexc + int) option")
    (fspath_hook: "pyobject special")

text \<open>The objects of the exact types \<^verbatim>\<open>int\<close>, \<^verbatim>\<open>bytes\<close> and \<^verbatim>\<open>str\<close>.\<close>

abbreviation PyLong :: "int \<Rightarrow> pyobject" where
  "PyLong v \<equiv> PyObject ''int'' Plain (Some (Inr v)) NotFound"

abbreviation PyBytes :: "bytes \<Rightarrow> pyobject" where
  "PyBytes bs \<equiv> PyObject ''bytes'' (Bytes bs) None NotFound"

abbreviation PyUnicode :: "pyexc + bytes \<Rightarrow> pyobject" where
  "PyUnicode r \<equiv> PyObject ''str'' (Unicode r) None NotFound"

definition PyIndex_Check :: "pyobject \<Rightarrow> bool" where
  "PyIndex_Check ob = (nb_index ob \<noteq> None)"

definition PyBytes_Check :: "pyobject \<Rightarrow> bool" where
  "PyBytes_Check ob = (case ob_kind ob of Bytes bs \<Rightarrow> True | Unicode r \<Rightarrow> False | Plain \<Rightarrow> False)"

definition PyUnicode_Check :: "pyobject \<Rightarrow> bool" where
  "PyUnicode_Check ob = (case ob_kind ob of Bytes bs \<Rightarrow> False | Unicode r \<Rightarrow> True | Plain \<Rightarrow> False)"

text \<open>\<^verbatim>\<open>PyBytes_AS_STRING\<close> and \<^verbatim>\<open>PyBytes_GET_SIZE\<close> of a \<^verbatim>\<open>bytes\<close> object.\<close>

definition PyBytes_AS_STRING :: "pyobject \<Rightarrow> bytes" where
  "PyBytes_AS_STRING ob = (case ob_kind ob of Bytes bs \<Rightarrow> bs | Unicode r \<Rightarrow> [] | Plain \<Rightarrow> [])"

definition PyBytes_GET_SIZE :: "pyobject \<Rightarrow> int" where
  "PyBytes_GET_SIZE ob = int (length (PyBytes_AS_STRING ob))"

text \<open>
  \<^verbatim>\<open>strlen\<close>: the number of characters before the first terminator. The buffer of a
  \<^verbatim>\<open>bytes\<close> object has a terminator after its last character, so the scan stops at the
  end of the contents at the latest.
\<close>

fun strlen :: "bytes \<Rightarrow> nat" where
  "strlen [] = 0"
| "strlen (c # cs) = (if c = CHR 0x00 then 0 else Suc (strlen cs))"

text \<open>
  CPython's \<^verbatim>\<open>PyUnicode_FSConverter(o, &bytes)\<close>: the exception it sets, or the \<^verbatim>\<open>bytes\<close>
  object it gives. It encodes a \<^verbatim>\<open>str\<close>, takes a \<^verbatim>\<open>bytes\<close> object as it is, and then scans
  the bytes itself: a terminator inside them is the \<^verbatim>\<open>ValueError\<close> ``embedded null byte''.
  \<^verbatim>\<open>path_converter\<close> calls it on objects that pass \<^verbatim>\<open>PyUnicode_Check\<close> only; the last case
  is there for completeness.
\<close>

definition PyUnicode_FSConverter :: "pyobject \<Rightarrow> pyexc + pyobject" where
  "PyUnicode_FSConverter ob =
     (case ob_kind ob of
        Unicode r \<Rightarrow>
          (case r of
             Inl e \<Rightarrow> Inl e
           | Inr bs \<Rightarrow>
               if strlen bs \<noteq> length bs then
                 Inl (PyErr PyExc_ValueError ''embedded null byte'')
               else Inr (PyBytes bs))
      | Bytes bs \<Rightarrow>
          if strlen bs \<noteq> length bs then Inl (PyErr PyExc_ValueError ''embedded null byte'')
          else Inr ob
      | Plain \<Rightarrow> Inl (PyErr PyExc_TypeError ''expected str, bytes or os.PathLike object''))"

section \<open>Descriptors: \<^verbatim>\<open>fd_converter\<close>\<close>

text \<open>The limits of \<^verbatim>\<open>int\<close> and \<^verbatim>\<open>long\<close> from \<^verbatim>\<open>limits.h\<close>, as on 64-bit Linux (LP64).\<close>

definition INT_MAX :: int where
  "INT_MAX = 2 ^ 31 - 1"

definition LONG_MAX :: int where
  "LONG_MAX = 2 ^ 63 - 1"

definition LONG_MIN :: int where
  "LONG_MIN = - (2 ^ 63)"

text \<open>
  \<^verbatim>\<open>PyLong_AsLongAndOverflow(o, &overflow)\<close>: the pair \<open>(tmp, overflow)\<close>, or the exception
  set while turning \<open>o\<close> into an integer (then the C function returns \<open>-1\<close>, and
  \<^verbatim>\<open>PyErr_Occurred()\<close> holds). A value outside \<^verbatim>\<open>long\<close> gives \<open>-1\<close> with \<open>overflow\<close> set to
  its sign and no exception. The message for an object that is no integer is CPython's.
\<close>

definition PyLong_AsLongAndOverflow :: "pyobject \<Rightarrow> pyexc + int \<times> int" where
  "PyLong_AsLongAndOverflow ob =
     (case nb_index ob of
        None \<Rightarrow> Inl (PyErr PyExc_TypeError ''an integer is required'')
      | Some (Inl e) \<Rightarrow> Inl e
      | Some (Inr v) \<Rightarrow>
          if LONG_MAX < v then Inr (- 1, 1)
          else if v < LONG_MIN then Inr (- 1, - 1)
          else Inr (v, 0))"

definition fd_converter :: "pyobject \<Rightarrow> pyexc + int" where
  "fd_converter ob =
     (case PyLong_AsLongAndOverflow ob of
        Inl e \<Rightarrow> Inl e
      | Inr (tmp, overflow) \<Rightarrow>
          if 0 < overflow \<or> INT_MAX < tmp then
            Inl (PyErr PyExc_OverflowError ''fd is greater than maximum'')
          else if overflow < 0 \<or> tmp < 0 then
            Inl (PyErr PyExc_ValueError ''fd is negative'')
          else Inr tmp)"

section \<open>Paths: \<^verbatim>\<open>path_converter\<close>\<close>

text \<open>
  \<^verbatim>\<open>struct path_arg\<close> (declared in \<^verbatim>\<open>btrfsutilpy.h\<close>), with the fields that
  \<^verbatim>\<open>module.c\<close> reads and writes. A \<^verbatim>\<open>NULL\<close> pointer is \<open>None\<close>.
\<close>

record path_arg =
  allow_fd :: bool
  path :: "bytes option"
  fd :: int
  length_f :: int
  object :: "pyobject option"
  cleanup :: "pyobject option"

definition path_cleanup :: "path_arg \<Rightarrow> path_arg" where
  "path_cleanup p = p\<lparr>object := None, cleanup := None\<rparr>"

text \<open>The two lists of accepted types of the \<^verbatim>\<open>err_format\<close> message.\<close>

definition accepted_types :: "bool \<Rightarrow> string" where
  "accepted_types allow =
     (if allow then ''string, bytes, os.PathLike, or integer''
      else ''string, bytes, or os.PathLike'')"

text \<open>The label \<^verbatim>\<open>err_format\<close>: \<^verbatim>\<open>PyErr_Format(PyExc_TypeError, "expected %s, not %s", ...)\<close>.\<close>

definition err_format :: "path_arg \<Rightarrow> pyobject \<Rightarrow> pyexc" where
  "err_format p ob =
     PyErr PyExc_TypeError
       (''expected '' @ accepted_types (allow_fd p) @ '', not '' @ tp_name ob)"

text \<open>
  Lines 102 to 120: the check of the \<^verbatim>\<open>bytes\<close> object \<open>b\<close> obtained from \<open>ob\<close>, and the
  path result. \<open>b\<close> is \<open>ob\<close> itself for a \<^verbatim>\<open>bytes\<close> argument (nothing to clean up) and a new
  object for a \<^verbatim>\<open>str\<close> argument (kept in \<^verbatim>\<open>cleanup\<close>).
\<close>

definition path_from_bytes :: "path_arg \<Rightarrow> pyobject \<Rightarrow> pyobject \<Rightarrow> pyexc + path_arg" where
  "path_from_bytes p ob b =
     (let len = PyBytes_GET_SIZE b; tmp = PyBytes_AS_STRING b
      in if len \<noteq> int (strlen tmp) then
           Inl (PyErr PyExc_TypeError ''path has embedded nul character'')
         else
           Inr (p\<lparr>path := Some tmp,
                  cleanup := (if b = ob then None else Some b),
                  fd := - 1,
                  length_f := len,
                  object := Some ob\<rparr>))"

text \<open>
  Lines 82 to 100: the dispatch on the three flags, for the object \<open>ob\<close> that \<^verbatim>\<open>o\<close> points
  to at that place (the argument, or what its \<^verbatim>\<open>__fspath__\<close> returned).
\<close>

definition path_dispatch ::
  "path_arg \<Rightarrow> bool \<Rightarrow> bool \<Rightarrow> bool \<Rightarrow> pyobject \<Rightarrow> pyexc + path_arg" where
  "path_dispatch p is_index is_bytes is_unicode ob =
     (if is_unicode then
        (case PyUnicode_FSConverter ob of
           Inl e \<Rightarrow> Inl e
         | Inr b \<Rightarrow> path_from_bytes p ob b)
      else if is_bytes then path_from_bytes p ob ob
      else if is_index then
        (case fd_converter ob of
           Inl e \<Rightarrow> Inl e
         | Inr d \<Rightarrow> Inr (p\<lparr>fd := d, path := None, length_f := 0, object := Some ob\<rparr>))
      else Inl (err_format p ob))"

text \<open>
  \<^verbatim>\<open>path_converter(o, p)\<close>. \<open>None\<close> for \<^verbatim>\<open>o\<close> is the clean-up call. The result is the
  exception left pending when the C function returns 0, or the structure as written when
  it returns non-zero.
\<close>

definition path_converter :: "pyobject option \<Rightarrow> path_arg \<Rightarrow> pyexc + path_arg" where
  "path_converter o_arg p0 =
     (case o_arg of
        None \<Rightarrow> Inr (path_cleanup p0)
      | Some ob \<Rightarrow>
          (let p = p0\<lparr>object := None, cleanup := None, fd := - 1\<rparr>;
               is_index = (allow_fd p \<and> PyIndex_Check ob);
               is_bytes = PyBytes_Check ob;
               is_unicode = PyUnicode_Check ob
           in if \<not> is_index \<and> \<not> is_bytes \<and> \<not> is_unicode then
                (case fspath_hook ob of
                   NotFound \<Rightarrow> Inl (err_format p ob)
                 | Found (Inl e) \<Rightarrow> Inl e
                 | Found (Inr r) \<Rightarrow>
                     path_dispatch p is_index (PyBytes_Check r) (PyUnicode_Check r) r)
              else path_dispatch p is_index is_bytes is_unicode ob))"

section \<open>The method table and the module initialisation\<close>

text \<open>The flags of \<^verbatim>\<open>methodobject.h\<close> that the table uses.\<close>

definition METH_VARARGS :: nat where
  "METH_VARARGS = 1"

definition METH_KEYWORDS :: nat where
  "METH_KEYWORDS = 2"

text \<open>The C functions of the table; they are defined in another file of the binding.\<close>

datatype cfunction = filesystem_sync | start_sync | wait_sync

record PyMethodDef =
  ml_name :: string
  ml_meth :: cfunction
  ml_flags :: nat
  ml_doc :: string

definition nl :: string where
  "nl = [CHR 0x0A]"

text \<open>\<^verbatim>\<open>btrfsutil_methods\<close>, without the empty entry that ends the array.\<close>

definition btrfsutil_methods :: "PyMethodDef list" where
  "btrfsutil_methods =
     [\<lparr>ml_name = ''sync'', ml_meth = filesystem_sync,
       ml_flags = METH_VARARGS + METH_KEYWORDS,
       ml_doc = ''sync(path)'' @ nl @ nl @
                ''Sync a specific Btrfs filesystem.'' @ nl @ nl @
                ''Arguments:'' @ nl @
                ''path -- string, bytes, path-like object, or open file descriptor''\<rparr>,
      \<lparr>ml_name = ''start_sync'', ml_meth = start_sync,
       ml_flags = METH_VARARGS + METH_KEYWORDS,
       ml_doc = ''start_sync(path) -> int'' @ nl @ nl @
                ''Start a sync on a specific Btrfs filesystem and return the'' @ nl @
                ''transaction ID.'' @ nl @ nl @
                ''Arguments:'' @ nl @
                ''path -- string, bytes, path-like object, or open file descriptor''\<rparr>,
      \<lparr>ml_name = ''wait_sync'', ml_meth = wait_sync,
       ml_flags = METH_VARARGS + METH_KEYWORDS,
       ml_doc = ''wait_sync(path, transid=0)'' @ nl @ nl @
                ''Wait for a transaction to sync.'' @ nl @
                ''Arguments:'' @ nl @
                ''path -- string, bytes, path-like object, or open file descriptor'' @ nl @
                ''transid -- int transaction ID to wait for, or zero for the current'' @ nl @
                ''transaction''\<rparr>]"

text \<open>The lines of a documentation string.\<close>

fun split_lines :: "string \<Rightarrow> string \<Rightarrow> string list" where
  "split_lines acc [] = [rev acc]"
| "split_lines acc (c # cs) =
     (if c = CHR 0x0A then rev acc # split_lines [] cs else split_lines (c # acc) cs)"

text \<open>
  The method resolution order of a type that is ready: the type, then the order of its base
  (single inheritance). The first argument is the order of \<^verbatim>\<open>BtrfsUtilError_type\<close>, whose
  base is a field that \<^verbatim>\<open>PyInit_btrfsutil\<close> writes; the built-in hierarchy is CPython's.
\<close>

fun mro_with :: "pytype list \<Rightarrow> pytype \<Rightarrow> pytype list" where
  "mro_with bu PyBaseObject_Type = [PyBaseObject_Type]"
| "mro_with bu PyExc_BaseException = [PyExc_BaseException, PyBaseObject_Type]"
| "mro_with bu PyExc_Exception = [PyExc_Exception, PyExc_BaseException, PyBaseObject_Type]"
| "mro_with bu PyExc_OSError =
     [PyExc_OSError, PyExc_Exception, PyExc_BaseException, PyBaseObject_Type]"
| "mro_with bu PyExc_TypeError =
     [PyExc_TypeError, PyExc_Exception, PyExc_BaseException, PyBaseObject_Type]"
| "mro_with bu PyExc_ValueError =
     [PyExc_ValueError, PyExc_Exception, PyExc_BaseException, PyBaseObject_Type]"
| "mro_with bu PyExc_ArithmeticError =
     [PyExc_ArithmeticError, PyExc_Exception, PyExc_BaseException, PyBaseObject_Type]"
| "mro_with bu PyExc_OverflowError =
     [PyExc_OverflowError, PyExc_ArithmeticError, PyExc_Exception, PyExc_BaseException,
      PyBaseObject_Type]"
| "mro_with bu (HeapType n b) = HeapType n b # mro_with bu b"
| "mro_with bu BtrfsUtilError_type = bu"
| "mro_with bu QgroupInherit_type = [QgroupInherit_type, PyBaseObject_Type]"

text \<open>The fields of the two static types that \<^verbatim>\<open>PyInit_btrfsutil\<close> assigns.\<close>

datatype newfunc = PyType_GenericNew

record type_slots =
  BtrfsUtilError_tp_base :: "pytype option"
  QgroupInherit_tp_new :: "newfunc option"

definition tp_mro :: "type_slots \<Rightarrow> pytype \<Rightarrow> pytype list" where
  "tp_mro st t =
     mro_with
       (BtrfsUtilError_type #
          (case BtrfsUtilError_tp_base st of
             None \<Rightarrow> [PyBaseObject_Type]
           | Some b \<Rightarrow> mro_with [BtrfsUtilError_type, PyBaseObject_Type] b))
       t"

text \<open>\<^verbatim>\<open>PyType_IsSubtype(a, b)\<close>: \<open>b\<close> is in the method resolution order of \<open>a\<close>.\<close>

definition PyType_IsSubtype :: "type_slots \<Rightarrow> pytype \<Rightarrow> pytype \<Rightarrow> bool" where
  "PyType_IsSubtype st a b = (b \<in> set (tp_mro st a))"

datatype modattr = TypeObject pytype | IntConstant int

record pymodule =
  m_name :: string
  m_doc :: string
  m_methods :: "PyMethodDef list"
  m_attrs :: "(string \<times> modattr) list"

text \<open>\<^verbatim>\<open>btrfsutilmodule\<close> as \<^verbatim>\<open>PyModule_Create\<close> turns it into a module.\<close>

definition btrfsutilmodule :: pymodule where
  "btrfsutilmodule =
     \<lparr>m_name = ''btrfsutil'', m_doc = ''Library for managing Btrfs filesystems'',
      m_methods = btrfsutil_methods, m_attrs = []\<rparr>"

definition PyModule_AddObject :: "pymodule \<Rightarrow> string \<Rightarrow> modattr \<Rightarrow> pymodule" where
  "PyModule_AddObject m name v = m\<lparr>m_attrs := m_attrs m @ [(name, v)]\<rparr>"

text \<open>
  What the environment decides during the initialisation: the values returned by the two
  calls of \<^verbatim>\<open>PyType_Ready\<close>, whether \<^verbatim>\<open>PyModule_Create\<close> returns a module, and the
  constants that \<^verbatim>\<open>add_module_constants\<close> (defined in another file) adds.
\<close>

record init_env =
  ready_BtrfsUtilError :: int
  ready_QgroupInherit :: int
  create_ok :: bool
  module_constants :: "(string \<times> int) list"

definition add_module_constants :: "init_env \<Rightarrow> pymodule \<Rightarrow> pymodule" where
  "add_module_constants env m =
     m\<lparr>m_attrs := m_attrs m @ map (\<lambda>(n, v). (n, IntConstant v)) (module_constants env)\<rparr>"

text \<open>
  \<^verbatim>\<open>PyInit_btrfsutil\<close>: the module, or \<open>None\<close> for \<^verbatim>\<open>NULL\<close>, and the fields of the static
  types as it leaves them.
\<close>

definition PyInit_btrfsutil :: "init_env \<Rightarrow> type_slots \<Rightarrow> pymodule option \<times> type_slots" where
  "PyInit_btrfsutil env st =
     (let st1 = st\<lparr>BtrfsUtilError_tp_base := Some PyExc_OSError\<rparr>
      in if ready_BtrfsUtilError env < 0 then (None, st1)
         else
           (let st2 = st1\<lparr>QgroupInherit_tp_new := Some PyType_GenericNew\<rparr>
            in if ready_QgroupInherit env < 0 then (None, st2)
               else if \<not> create_ok env then (None, st2)
               else
                 (let m1 = PyModule_AddObject btrfsutilmodule ''BtrfsUtilError''
                             (TypeObject BtrfsUtilError_type);
                      m2 = PyModule_AddObject m1 ''QgroupInherit''
                             (TypeObject QgroupInherit_type)
                  in (Some (add_module_constants env m2), st2))))"

section \<open>The control operations, from the specification\<close>

text \<open>
  Modelled from the spec: the target reference of its data model, a tagged union of a path
  (a byte sequence) and an open descriptor. The type is declared nowhere in
  \<^verbatim>\<open>module.c\<close>.
\<close>

datatype target_ref = TextualPath bytes | OpenDescriptor int

text \<open>
  Modelled from the spec: the three control operations and the control error, which carries
  the operation, the path if known and the system error code. The error type
  \<^verbatim>\<open>BtrfsUtilError_type\<close> is declared in a file of the binding other than \<^verbatim>\<open>module.c\<close>.
\<close>

datatype operation = OpForceSync | OpStartSync | OpWaitSync

record control_error =
  ce_operation :: operation
  ce_path :: "bytes option"
  ce_system_error_code :: int

datatype failure = InvalidArgument | ControlError control_error

text \<open>
  Modelled from the spec: the system under the operations. Opening a path gives an error
  code or a descriptor; waiting for a transaction on a descriptor gives an error code, 0
  for success. Every request made is recorded in a log.
\<close>

record system =
  sys_open :: "bytes \<Rightarrow> int + int"
  sys_wait_sync :: "int \<Rightarrow> int \<Rightarrow> int"

datatype request = ReqOpen bytes | ReqWaitSync int int | ReqClose int

text \<open>
  Modelled from the spec: \<^verbatim>\<open>WaitSync(target, transaction_id = 0)\<close>, whose C function
  \<^verbatim>\<open>wait_sync\<close> is in a file of the binding other than \<^verbatim>\<open>module.c\<close>. An omitted
  identifier (\<open>None\<close>) is 0; a negative identifier is rejected before any request; a
  descriptor given by the caller is not closed, one opened from a path is closed on every
  way out.
\<close>

definition wait_on :: "system \<Rightarrow> bytes option \<Rightarrow> int \<Rightarrow> int \<Rightarrow> failure + unit" where
  "wait_on sys pth d transaction_id =
     (let rc = sys_wait_sync sys d transaction_id
      in if rc = 0 then Inr ()
         else Inl (ControlError
                \<lparr>ce_operation = OpWaitSync, ce_path = pth, ce_system_error_code = rc\<rparr>))"

definition WaitSync ::
  "system \<Rightarrow> target_ref \<Rightarrow> int option \<Rightarrow> (failure + unit) \<times> request list" where
  "WaitSync sys target tid =
     (let transaction_id = (case tid of None \<Rightarrow> 0 | Some t \<Rightarrow> t)
      in if transaction_id < 0 then (Inl InvalidArgument, [])
         else
           (case target of
              OpenDescriptor d \<Rightarrow>
                (wait_on sys None d transaction_id, [ReqWaitSync d transaction_id])
            | TextualPath bs \<Rightarrow>
                (case sys_open sys bs of
                   Inl errno \<Rightarrow>
                     (Inl (ControlError
                        \<lparr>ce_operation = OpWaitSync, ce_path = Some bs,
                         ce_system_error_code = errno\<rparr>),
                      [ReqOpen bs])
                 | Inr d \<Rightarrow>
                     (wait_on sys (Some bs) d transaction_id,
                      [ReqOpen bs, ReqWaitSync d transaction_id, ReqClose d]))))"

section \<open>Notions used in the statements\<close>

text \<open>
  A \<^verbatim>\<open>struct path_arg\<close> as the C initialiser \<^verbatim>\<open>{.allow_fd = allow}\<close> leaves it: every other
  field is zero. The concrete instances below start from it.
\<close>

definition path_arg_init :: "bool \<Rightarrow> path_arg" where
  "path_arg_init allow =
     \<lparr>allow_fd = allow, path = None, fd = 0, length_f = 0, object = None, cleanup = None\<rparr>"

text \<open>The call ends with an exception of class \<open>t\<close> pending.\<close>

definition raises :: "pytype \<Rightarrow> pyexc + 'a \<Rightarrow> bool" where
  "raises t r = (case r of Inl e \<Rightarrow> exc_type e = t | Inr v \<Rightarrow> False)"

text \<open>
  The condition of line 66, under which \<^verbatim>\<open>path_converter\<close> looks \<^verbatim>\<open>__fspath__\<close> up: the
  object is not taken as a descriptor, and is neither \<^verbatim>\<open>bytes\<close> nor \<^verbatim>\<open>str\<close>.
\<close>

definition tries_fspath :: "path_arg \<Rightarrow> pyobject \<Rightarrow> bool" where
  "tries_fspath p ob =
     (\<not> (allow_fd p \<and> PyIndex_Check ob) \<and> \<not> PyBytes_Check ob \<and> \<not> PyUnicode_Check ob)"

text \<open>\<open>contains xs ys\<close>: the text \<open>xs\<close> occurs in \<open>ys\<close>.\<close>

fun is_prefix :: "string \<Rightarrow> string \<Rightarrow> bool" where
  "is_prefix [] ys = True"
| "is_prefix (x # xs) [] = False"
| "is_prefix (x # xs) (y # ys) = (x = y \<and> is_prefix xs ys)"

fun contains :: "string \<Rightarrow> string \<Rightarrow> bool" where
  "contains xs [] = (xs = [])"
| "contains xs (y # ys) = (is_prefix xs (y # ys) \<or> contains xs ys)"

text \<open>
  Modelled from the spec: the path that a control error reports for a target, known only
  when the target is a path.
\<close>

fun target_path :: "target_ref \<Rightarrow> bytes option" where
  "target_path (TextualPath bs) = Some bs"
| "target_path (OpenDescriptor d) = None"

section \<open>The terminator scan\<close>

lemma strlen_le: "strlen bs \<le> length bs"
  by (induction bs) auto

lemma strlen_eq_length: "(strlen bs = length bs) = (CHR 0x00 \<notin> set bs)"
proof (induction bs)
  case Nil
  show ?case by simp
next
  case (Cons c cs)
  have "strlen cs \<le> length cs" by (rule strlen_le)
  with Cons show ?case by auto
qed

lemma length_eq_strlen: "(length bs = strlen bs) = (CHR 0x00 \<notin> set bs)"
  using strlen_eq_length [of bs] by auto

lemma path_from_bytes_value:
  "ob_kind b = Bytes bs \<Longrightarrow>
   path_from_bytes p ob b =
     (if CHR 0x00 \<in> set bs then Inl (PyErr PyExc_TypeError ''path has embedded nul character'')
      else Inr (p\<lparr>path := Some bs, cleanup := (if b = ob then None else Some b), fd := - 1,
                   length_f := int (length bs), object := Some ob\<rparr>))"
  by (simp add: path_from_bytes_def PyBytes_GET_SIZE_def PyBytes_AS_STRING_def length_eq_strlen)

lemma path_converter_bytes:
  assumes "ob_kind ob = Bytes bs"
  shows "path_converter (Some ob) p =
     (if CHR 0x00 \<in> set bs then Inl (PyErr PyExc_TypeError ''path has embedded nul character'')
      else Inr (p\<lparr>path := Some bs, cleanup := None, fd := - 1,
                   length_f := int (length bs), object := Some ob\<rparr>))"
proof -
  from assms have "path_converter (Some ob) p =
      path_from_bytes (p\<lparr>object := None, cleanup := None, fd := - 1\<rparr>) ob ob"
    by (simp add: path_converter_def path_dispatch_def PyBytes_Check_def PyUnicode_Check_def)
  with assms show ?thesis by (simp add: path_from_bytes_value)
qed

lemma path_converter_unicode:
  assumes "ob_kind ob = Unicode (Inr bs)"
  shows "path_converter (Some ob) p =
     (if CHR 0x00 \<in> set bs then Inl (PyErr PyExc_ValueError ''embedded null byte'')
      else Inr (p\<lparr>path := Some bs, cleanup := Some (PyBytes bs), fd := - 1,
                   length_f := int (length bs), object := Some ob\<rparr>))"
proof (cases "CHR 0x00 \<in> set bs")
  case True
  with assms show ?thesis
    by (simp add: path_converter_def path_dispatch_def PyBytes_Check_def PyUnicode_Check_def
        PyUnicode_FSConverter_def strlen_eq_length)
next
  case False
  from assms have ne: "PyBytes bs \<noteq> ob" by auto
  from assms False have "path_converter (Some ob) p =
      path_from_bytes (p\<lparr>object := None, cleanup := None, fd := - 1\<rparr>) ob (PyBytes bs)"
    by (simp add: path_converter_def path_dispatch_def PyBytes_Check_def PyUnicode_Check_def
        PyUnicode_FSConverter_def strlen_eq_length)
  with False ne show ?thesis by (simp add: path_from_bytes_value)
qed

lemma path_converter_unicode_fail:
  "ob_kind ob = Unicode (Inl e) \<Longrightarrow> path_converter (Some ob) p = Inl e"
  by (simp add: path_converter_def path_dispatch_def PyBytes_Check_def PyUnicode_Check_def
      PyUnicode_FSConverter_def)

text \<open>
  C1, as stated: a path with an embedded terminator fails with an error of the
  invalid-argument class, which is \<^verbatim>\<open>ValueError\<close> in this binding (the class that
  \<^verbatim>\<open>fd_converter\<close> uses for a negative descriptor). On the byte path
  \<^verbatim>\<open>b"/path/with\x00null"\<close> the converter sets a \<^verbatim>\<open>TypeError\<close> instead.
\<close>

theorem embedded_nul_counterexample:
  "path_converter (Some (PyBytes (''/path/with'' @ [CHR 0x00] @ ''null''))) (path_arg_init True) =
     Inl (PyErr PyExc_TypeError ''path has embedded nul character'') \<and>
   \<not> raises PyExc_ValueError
       (path_converter (Some (PyBytes (''/path/with'' @ [CHR 0x00] @ ''null'')))
          (path_arg_init True))"
  by (simp add: path_converter_bytes raises_def)

text \<open>
  C1, amended: a textual path whose bytes contain a terminator anywhere fails with a
  \<^verbatim>\<open>ValueError\<close>, as stated (the conversion to bytes raises it, before the scan of the
  converter); a byte path that contains one fails with the \<^verbatim>\<open>TypeError\<close> ``path has
  embedded nul character''. Neither gives a handle. A path without a terminator is
  accepted as a path, with the descriptor field at \<open>-1\<close>. This holds for every object that
  passes \<^verbatim>\<open>PyBytes_Check\<close> or \<^verbatim>\<open>PyUnicode_Check\<close>, whatever else it defines.
\<close>

theorem embedded_nul_error:
  "path_converter (Some (PyObject n (Bytes bs) idx fsp)) p =
     (if CHR 0x00 \<in> set bs then Inl (PyErr PyExc_TypeError ''path has embedded nul character'')
      else Inr (p\<lparr>path := Some bs, cleanup := None, fd := - 1,
                   length_f := int (length bs),
                   object := Some (PyObject n (Bytes bs) idx fsp)\<rparr>)) \<and>
   path_converter (Some (PyObject n' (Unicode (Inr bs)) idx' fsp')) p =
     (if CHR 0x00 \<in> set bs then Inl (PyErr PyExc_ValueError ''embedded null byte'')
      else Inr (p\<lparr>path := Some bs, cleanup := Some (PyBytes bs), fd := - 1,
                   length_f := int (length bs),
                   object := Some (PyObject n' (Unicode (Inr bs)) idx' fsp')\<rparr>))"
proof -
  have b: "ob_kind (PyObject n (Bytes bs) idx fsp) = Bytes bs" by simp
  have u: "ob_kind (PyObject n' (Unicode (Inr bs)) idx' fsp') = Unicode (Inr bs)" by simp
  show ?thesis
    using path_converter_bytes [OF b, of p] path_converter_unicode [OF u, of p] by simp
qed

theorem embedded_nul_error_witness:
  "path_converter (Some (PyBytes ''/mnt/test'')) (path_arg_init True) =
     Inr \<lparr>allow_fd = True, path = Some ''/mnt/test'', fd = - 1, length_f = 9,
          object = Some (PyBytes ''/mnt/test''), cleanup = None\<rparr> \<and>
   path_converter (Some (PyUnicode (Inr ''/mnt/test''))) (path_arg_init True) =
     Inr \<lparr>allow_fd = True, path = Some ''/mnt/test'', fd = - 1, length_f = 9,
          object = Some (PyUnicode (Inr ''/mnt/test'')), cleanup = Some (PyBytes ''/mnt/test'')\<rparr> \<and>
   path_converter (Some (PyBytes [CHR 0x00, CHR ''a''])) (path_arg_init False) =
     Inl (PyErr PyExc_TypeError ''path has embedded nul character'') \<and>
   path_converter (Some (PyUnicode (Inr [CHR ''a'', CHR 0x00]))) (path_arg_init False) =
     Inl (PyErr PyExc_ValueError ''embedded null byte'')"
proof -
  note inst = embedded_nul_error [where n = "''bytes''" and idx = None and fsp = NotFound
      and n' = "''str''" and idx' = None and fsp' = NotFound]
  show ?thesis
    using inst [of "''/mnt/test''" "path_arg_init True"]
      inst [of "[CHR 0x00, CHR ''a'']" "path_arg_init False"]
      inst [of "[CHR ''a'', CHR 0x00]" "path_arg_init False"]
    by (simp add: path_arg_init_def)
qed

section \<open>Descriptors\<close>

lemma fd_converter_value:
  "nb_index ob = Some (Inr x) \<Longrightarrow>
   fd_converter ob =
     (if INT_MAX < x then Inl (PyErr PyExc_OverflowError ''fd is greater than maximum'')
      else if x < 0 then Inl (PyErr PyExc_ValueError ''fd is negative'')
      else Inr x)"
  by (simp add: fd_converter_def PyLong_AsLongAndOverflow_def INT_MAX_def LONG_MAX_def
      LONG_MIN_def)

lemma fd_converter_range: "fd_converter ob = Inr d \<Longrightarrow> 0 \<le> d \<and> d \<le> INT_MAX"
  by (auto simp add: fd_converter_def split: sum.splits prod.splits if_splits)

lemma path_converter_index:
  "allow_fd p \<Longrightarrow> PyIndex_Check ob \<Longrightarrow> ob_kind ob = Plain \<Longrightarrow>
   path_converter (Some ob) p =
     (case fd_converter ob of
        Inl e \<Rightarrow> Inl e
      | Inr d \<Rightarrow>
          Inr (p\<lparr>path := None, cleanup := None, fd := d, length_f := 0, object := Some ob\<rparr>))"
  by (auto simp add: path_converter_def path_dispatch_def PyBytes_Check_def PyUnicode_Check_def
      split: sum.splits)

lemma path_converter_PyLong:
  "path_converter (Some (PyLong x)) p =
     (if allow_fd p then
        (if INT_MAX < x then Inl (PyErr PyExc_OverflowError ''fd is greater than maximum'')
         else if x < 0 then Inl (PyErr PyExc_ValueError ''fd is negative'')
         else Inr (p\<lparr>path := None, cleanup := None, fd := x, length_f := 0,
                      object := Some (PyLong x)\<rparr>))
      else Inl (PyErr PyExc_TypeError ''expected string, bytes, or os.PathLike, not int''))"
proof (cases "allow_fd p")
  case True
  then show ?thesis
    by (simp add: path_converter_index fd_converter_value PyIndex_Check_def)
next
  case False
  then show ?thesis
    by (simp add: path_converter_def err_format_def accepted_types_def PyBytes_Check_def
        PyUnicode_Check_def)
qed

text \<open>
  C2: with descriptors allowed, an integer \<open>x\<close> from 0 to \<^verbatim>\<open>INT_MAX\<close> resolves to the
  descriptor \<open>x\<close> (and no path); a greater one fails with \<^verbatim>\<open>OverflowError\<close>, a negative one
  with \<^verbatim>\<open>ValueError\<close>, whatever its size, and neither case reports the other class.
\<close>

theorem descriptor_range:
  "allow_fd p \<Longrightarrow>
   path_converter (Some (PyLong x)) p =
     (if INT_MAX < x then Inl (PyErr PyExc_OverflowError ''fd is greater than maximum'')
      else if x < 0 then Inl (PyErr PyExc_ValueError ''fd is negative'')
      else Inr (p\<lparr>path := None, cleanup := None, fd := x, length_f := 0,
                   object := Some (PyLong x)\<rparr>))"
  by (simp add: path_converter_PyLong)

theorem descriptor_range_witness:
  "allow_fd (path_arg_init True) \<and>
   path_converter (Some (PyLong 3)) (path_arg_init True) =
     Inr \<lparr>allow_fd = True, path = None, fd = 3, length_f = 0, object = Some (PyLong 3),
          cleanup = None\<rparr> \<and>
   path_converter (Some (PyLong 2147483647)) (path_arg_init True) =
     Inr \<lparr>allow_fd = True, path = None, fd = 2147483647, length_f = 0,
          object = Some (PyLong 2147483647), cleanup = None\<rparr> \<and>
   path_converter (Some (PyLong 2147483648)) (path_arg_init True) =
     Inl (PyErr PyExc_OverflowError ''fd is greater than maximum'') \<and>
   path_converter (Some (PyLong (2 ^ 70))) (path_arg_init True) =
     Inl (PyErr PyExc_OverflowError ''fd is greater than maximum'') \<and>
   path_converter (Some (PyLong (- 1))) (path_arg_init True) =
     Inl (PyErr PyExc_ValueError ''fd is negative'') \<and>
   path_converter (Some (PyLong (- (2 ^ 70)))) (path_arg_init True) =
     Inl (PyErr PyExc_ValueError ''fd is negative'')"
proof -
  have h: "allow_fd (path_arg_init True)"
    by (simp add: path_arg_init_def)
  show ?thesis
    using h descriptor_range [OF h, of 3] descriptor_range [OF h, of 2147483647]
      descriptor_range [OF h, of 2147483648] descriptor_range [OF h, of "2 ^ 70"]
      descriptor_range [OF h, of "- 1"] descriptor_range [OF h, of "- (2 ^ 70)"]
    by (simp add: path_arg_init_def INT_MAX_def)
qed

section \<open>The conversion hook\<close>

text \<open>
  An object that is \<^verbatim>\<open>bytes\<close> or \<^verbatim>\<open>str\<close> is dispatched on that before the flag
  \<^verbatim>\<open>is_index\<close> is read (lines 82 to 88), so the flag does not matter for it.
\<close>

lemma path_dispatch_path_kind:
  "is_bytes \<or> is_unicode \<Longrightarrow>
   path_dispatch p is_index is_bytes is_unicode ob = path_dispatch p False is_bytes is_unicode ob"
  by (auto simp add: path_dispatch_def)

lemma path_converter_path_kind:
  assumes "PyBytes_Check ob \<or> PyUnicode_Check ob"
  shows "path_converter (Some ob) p =
     path_dispatch (p\<lparr>object := None, cleanup := None, fd := - 1\<rparr>) False
       (PyBytes_Check ob) (PyUnicode_Check ob) ob"
proof -
  from assms have a: "path_converter (Some ob) p =
      path_dispatch (p\<lparr>object := None, cleanup := None, fd := - 1\<rparr>)
        (allow_fd p \<and> PyIndex_Check ob) (PyBytes_Check ob) (PyUnicode_Check ob) ob"
    by (auto simp add: path_converter_def Let_def)
  from assms have b: "path_dispatch (p\<lparr>object := None, cleanup := None, fd := - 1\<rparr>)
        (allow_fd p \<and> PyIndex_Check ob) (PyBytes_Check ob) (PyUnicode_Check ob) ob =
      path_dispatch (p\<lparr>object := None, cleanup := None, fd := - 1\<rparr>) False
        (PyBytes_Check ob) (PyUnicode_Check ob) ob"
    by (rule path_dispatch_path_kind)
  from a b show ?thesis by (rule trans)
qed

lemma path_converter_hook:
  assumes t: "tries_fspath p ob"
  shows "path_converter (Some ob) p =
     (case fspath_hook ob of
        NotFound \<Rightarrow> Inl (err_format p ob)
      | Found (Inl e) \<Rightarrow> Inl e
      | Found (Inr r) \<Rightarrow>
          if PyBytes_Check r \<or> PyUnicode_Check r then path_converter (Some r) p
          else Inl (err_format p r))"
proof (cases "fspath_hook ob")
  case NotFound
  with t show ?thesis
    by (simp add: tries_fspath_def path_converter_def err_format_def)
next
  case (Found res)
  show ?thesis
  proof (cases res)
    case (Inl e)
    with Found t show ?thesis
      by (simp add: tries_fspath_def path_converter_def)
  next
    case (Inr r)
    with Found t have pc: "path_converter (Some ob) p =
        path_dispatch (p\<lparr>object := None, cleanup := None, fd := - 1\<rparr>) False
          (PyBytes_Check r) (PyUnicode_Check r) r"
      by (auto simp add: tries_fspath_def path_converter_def Let_def)
    show ?thesis
    proof (cases "PyBytes_Check r \<or> PyUnicode_Check r")
      case True
      with pc Found Inr show ?thesis by (simp add: path_converter_path_kind)
    next
      case False
      with pc Found Inr show ?thesis
        by (simp add: path_dispatch_def err_format_def)
    qed
  qed
qed

text \<open>
  C3, as stated: a value that provides \<^verbatim>\<open>__fspath__\<close> has the hook tried before it is read
  as an integer. With descriptors allowed, an object whose \<^verbatim>\<open>__index__\<close> gives 3 resolves to
  the descriptor 3 whether its hook returns \<^verbatim>\<open>b"/mnt"\<close> or raises: the hook is not called
  (a hook that raises would make the converter return 0).
\<close>

theorem hook_before_integer_counterexample:
  "path_converter
     (Some (PyObject ''FdLike'' Plain (Some (Inr 3)) (Found (Inr (PyBytes ''/mnt'')))))
     (path_arg_init True) =
     Inr \<lparr>allow_fd = True, path = None, fd = 3, length_f = 0,
          object = Some (PyObject ''FdLike'' Plain (Some (Inr 3)) (Found (Inr (PyBytes ''/mnt'')))),
          cleanup = None\<rparr> \<and>
   path_converter
     (Some (PyObject ''FdLike'' Plain (Some (Inr 3))
        (Found (Inl (PyErr PyExc_ValueError ''boom'')))))
     (path_arg_init True) =
     Inr \<lparr>allow_fd = True, path = None, fd = 3, length_f = 0,
          object =
            Some (PyObject ''FdLike'' Plain (Some (Inr 3))
              (Found (Inl (PyErr PyExc_ValueError ''boom'')))),
          cleanup = None\<rparr>"
  by (simp add: path_converter_index fd_converter_value path_arg_init_def INT_MAX_def
      PyIndex_Check_def)

text \<open>
  C3, amended: for a value whose hook would return \<open>r\<close>, the hook comes last. A value that
  is itself \<^verbatim>\<open>bytes\<close> or \<^verbatim>\<open>str\<close> is resolved as that path and its hook is not called,
  whether or not it has an index. A value that is neither is read as a descriptor, its
  hook not being called, when descriptors are allowed and it has an index. Only otherwise
  is the hook called, and \<open>r\<close> is resolved as the byte or textual path it is; an \<open>r\<close> of any
  other type, an integer included, is a \<^verbatim>\<open>TypeError\<close>.
\<close>

theorem hook_after_integer:
  assumes h: "fspath_hook ob = Found (Inr r)"
  shows "path_converter (Some ob) p =
     (case ob_kind ob of
        Bytes bs \<Rightarrow>
          if CHR 0x00 \<in> set bs then
            Inl (PyErr PyExc_TypeError ''path has embedded nul character'')
          else Inr (p\<lparr>path := Some bs, cleanup := None, fd := - 1,
                       length_f := int (length bs), object := Some ob\<rparr>)
      | Unicode u \<Rightarrow>
          (case u of
             Inl e \<Rightarrow> Inl e
           | Inr bs \<Rightarrow>
               if CHR 0x00 \<in> set bs then Inl (PyErr PyExc_ValueError ''embedded null byte'')
               else Inr (p\<lparr>path := Some bs, cleanup := Some (PyBytes bs), fd := - 1,
                            length_f := int (length bs), object := Some ob\<rparr>))
      | Plain \<Rightarrow>
          if allow_fd p \<and> PyIndex_Check ob then
            (case fd_converter ob of
               Inl e \<Rightarrow> Inl e
             | Inr d \<Rightarrow>
                 Inr (p\<lparr>path := None, cleanup := None, fd := d, length_f := 0,
                         object := Some ob\<rparr>))
          else if PyBytes_Check r \<or> PyUnicode_Check r then path_converter (Some r) p
          else Inl (err_format p r))"
proof (cases "ob_kind ob")
  case (Bytes bs)
  then show ?thesis by (simp add: path_converter_bytes)
next
  case (Unicode u)
  then show ?thesis
    by (cases u) (simp_all add: path_converter_unicode path_converter_unicode_fail)
next
  case Plain
  show ?thesis
  proof (cases "allow_fd p \<and> PyIndex_Check ob")
    case True
    with Plain show ?thesis by (simp add: path_converter_index)
  next
    case False
    with Plain have "tries_fspath p ob"
      by (simp add: tries_fspath_def PyBytes_Check_def PyUnicode_Check_def)
    then have "path_converter (Some ob) p =
        (if PyBytes_Check r \<or> PyUnicode_Check r then path_converter (Some r) p
         else Inl (err_format p r))"
      using h by (simp add: path_converter_hook)
    with False Plain show ?thesis by auto
  qed
qed

theorem hook_after_integer_witness:
  "fspath_hook (PyObject ''PosixPath'' Plain None (Found (Inr (PyUnicode (Inr ''/mnt''))))) =
     Found (Inr (PyUnicode (Inr ''/mnt''))) \<and>
   path_converter
     (Some (PyObject ''PosixPath'' Plain None (Found (Inr (PyUnicode (Inr ''/mnt''))))))
     (path_arg_init True) =
     Inr \<lparr>allow_fd = True, path = Some ''/mnt'', fd = - 1, length_f = 4,
          object = Some (PyUnicode (Inr ''/mnt'')), cleanup = Some (PyBytes ''/mnt'')\<rparr> \<and>
   fspath_hook
     (PyObject ''IndexedStr'' (Unicode (Inr ''/data'')) (Some (Inr 3))
        (Found (Inr (PyUnicode (Inr ''/mnt''))))) =
     Found (Inr (PyUnicode (Inr ''/mnt''))) \<and>
   path_converter
     (Some (PyObject ''IndexedStr'' (Unicode (Inr ''/data'')) (Some (Inr 3))
        (Found (Inr (PyUnicode (Inr ''/mnt''))))))
     (path_arg_init True) =
     Inr \<lparr>allow_fd = True, path = Some ''/data'', fd = - 1, length_f = 5,
          object =
            Some (PyObject ''IndexedStr'' (Unicode (Inr ''/data'')) (Some (Inr 3))
              (Found (Inr (PyUnicode (Inr ''/mnt''))))),
          cleanup = Some (PyBytes ''/data'')\<rparr>"
proof -
  let ?r = "PyUnicode (Inr ''/mnt'')"
  let ?a = "PyObject ''PosixPath'' Plain None (Found (Inr ?r))"
  let ?b = "PyObject ''IndexedStr'' (Unicode (Inr ''/data'')) (Some (Inr 3)) (Found (Inr ?r))"
  have ha: "fspath_hook ?a = Found (Inr ?r)"
    by simp
  have hb: "fspath_hook ?b = Found (Inr ?r)"
    by simp
  have r: "ob_kind ?r = Unicode (Inr ''/mnt'')"
    by simp
  show ?thesis
    using ha hb hook_after_integer [OF ha, of "path_arg_init True"]
      hook_after_integer [OF hb, of "path_arg_init True"]
      path_converter_unicode [OF r, of "path_arg_init True"]
    by (simp add: path_arg_init_def PyIndex_Check_def PyBytes_Check_def PyUnicode_Check_def)
qed

text \<open>
  C6: when the hook is called (the condition of line 66 holds) and raises, the converter
  fails with the exception of the hook, class and message unchanged; no \<^verbatim>\<open>TypeError\<close> of
  the converter replaces it.
\<close>

theorem hook_failure_propagates:
  "tries_fspath p ob \<Longrightarrow> fspath_hook ob = Found (Inl e) \<Longrightarrow>
   path_converter (Some ob) p = Inl e"
  by (simp add: path_converter_hook)

theorem hook_failure_propagates_witness:
  "tries_fspath (path_arg_init True)
     (PyObject ''Broken'' Plain None
        (Found (Inl (PyErr (HeapType ''Boom'' PyExc_Exception) ''no path'')))) \<and>
   fspath_hook
     (PyObject ''Broken'' Plain None
        (Found (Inl (PyErr (HeapType ''Boom'' PyExc_Exception) ''no path'')))) =
     Found (Inl (PyErr (HeapType ''Boom'' PyExc_Exception) ''no path'')) \<and>
   path_converter
     (Some (PyObject ''Broken'' Plain None
        (Found (Inl (PyErr (HeapType ''Boom'' PyExc_Exception) ''no path'')))))
     (path_arg_init True) =
     Inl (PyErr (HeapType ''Boom'' PyExc_Exception) ''no path'')"
proof -
  let ?e = "PyErr (HeapType ''Boom'' PyExc_Exception) ''no path''"
  let ?ob = "PyObject ''Broken'' Plain None (Found (Inl ?e))"
  have t: "tries_fspath (path_arg_init True) ?ob"
    by (simp add: tries_fspath_def PyIndex_Check_def PyBytes_Check_def PyUnicode_Check_def)
  have h: "fspath_hook ?ob = Found (Inl ?e)"
    by simp
  show ?thesis
    using t h hook_failure_propagates [OF t h] by simp
qed

section \<open>Rejected shapes\<close>

lemma accepted_types_integer: "contains ''integer'' (accepted_types allow) = allow"
  by (cases allow) (simp_all add: accepted_types_def)

text \<open>
  C5: an object that is neither \<^verbatim>\<open>bytes\<close> nor \<^verbatim>\<open>str\<close>, that is not taken as a descriptor
  (descriptors are not allowed, or it has no index) and that has no \<^verbatim>\<open>__fspath__\<close> fails
  with a \<^verbatim>\<open>TypeError\<close> whose message is ``expected'', the list of the accepted types of
  that call, and the name of the type received; the list names the integer exactly when
  descriptors are allowed.
\<close>

theorem unsupported_shape_type_error:
  "tries_fspath p ob \<Longrightarrow> fspath_hook ob = NotFound \<Longrightarrow>
   path_converter (Some ob) p =
     Inl (PyErr PyExc_TypeError
            (''expected '' @ accepted_types (allow_fd p) @ '', not '' @ tp_name ob)) \<and>
   accepted_types (allow_fd p) =
     (if allow_fd p then ''string, bytes, os.PathLike, or integer''
      else ''string, bytes, or os.PathLike'') \<and>
   contains ''integer'' (accepted_types (allow_fd p)) = allow_fd p"
  by (simp add: path_converter_hook err_format_def accepted_types_integer)
    (simp add: accepted_types_def)

theorem unsupported_shape_type_error_witness:
  "tries_fspath (path_arg_init False) (PyLong 7) \<and>
   fspath_hook (PyLong 7) = NotFound \<and>
   path_converter (Some (PyLong 7)) (path_arg_init False) =
     Inl (PyErr PyExc_TypeError ''expected string, bytes, or os.PathLike, not int'') \<and>
   tries_fspath (path_arg_init True) (PyObject ''float'' Plain None NotFound) \<and>
   fspath_hook (PyObject ''float'' Plain None NotFound) = NotFound \<and>
   path_converter (Some (PyObject ''float'' Plain None NotFound)) (path_arg_init True) =
     Inl (PyErr PyExc_TypeError ''expected string, bytes, os.PathLike, or integer, not float'')"
proof -
  have t1: "tries_fspath (path_arg_init False) (PyLong 7)"
    by (simp add: tries_fspath_def path_arg_init_def PyBytes_Check_def PyUnicode_Check_def)
  have h1: "fspath_hook (PyLong 7) = NotFound"
    by simp
  have t2: "tries_fspath (path_arg_init True) (PyObject ''float'' Plain None NotFound)"
    by (simp add: tries_fspath_def PyIndex_Check_def PyBytes_Check_def PyUnicode_Check_def)
  have h2: "fspath_hook (PyObject ''float'' Plain None NotFound) = NotFound"
    by simp
  show ?thesis
    using t1 h1 t2 h2 unsupported_shape_type_error [OF t1 h1]
      unsupported_shape_type_error [OF t2 h2]
    by (simp add: path_arg_init_def)
qed

section \<open>The resolved structure\<close>

lemma path_from_bytes_Inr:
  "path_from_bytes p ob b = Inr p' \<Longrightarrow> path p' \<noteq> None \<and> fd p' = - 1"
  by (auto simp add: path_from_bytes_def Let_def split: if_splits)

lemma path_dispatch_Inr:
  assumes "path_dispatch p is_index is_bytes is_unicode ob = Inr p'"
  shows "(path p' = None \<and> 0 \<le> fd p' \<and> fd p' \<le> INT_MAX) \<or> (path p' \<noteq> None \<and> fd p' = - 1)"
proof (cases "is_unicode \<or> is_bytes")
  case True
  with assms obtain b where "path_from_bytes p ob b = Inr p'"
    by (auto simp add: path_dispatch_def split: if_splits sum.splits)
  then show ?thesis by (simp add: path_from_bytes_Inr)
next
  case False
  with assms obtain d where d: "fd_converter ob = Inr d"
    and p': "p' = p\<lparr>fd := d, path := None, length_f := 0, object := Some ob\<rparr>"
    by (auto simp add: path_dispatch_def split: if_splits sum.splits)
  from d have "0 \<le> d \<and> d \<le> INT_MAX" by (rule fd_converter_range)
  with p' show ?thesis by simp
qed

text \<open>
  C10: when the converter succeeds on an object, the structure holds exactly one variant:
  either no path (\<^verbatim>\<open>NULL\<close>) and a descriptor from 0 to \<^verbatim>\<open>INT_MAX\<close>, or a path pointer that
  is not \<^verbatim>\<open>NULL\<close> and the descriptor \<open>-1\<close>.
\<close>

theorem one_variant:
  assumes "path_converter (Some ob) p = Inr p'"
  shows "(path p' = None \<and> 0 \<le> fd p' \<and> fd p' \<le> INT_MAX) \<or> (path p' \<noteq> None \<and> fd p' = - 1)"
proof -
  from assms obtain q i b u r where "path_dispatch q i b u r = Inr p'"
    by (auto simp add: path_converter_def Let_def split: if_splits special.splits sum.splits)
  then show ?thesis by (rule path_dispatch_Inr)
qed

theorem one_variant_witness:
  "path_converter (Some (PyBytes ''/mnt'')) (path_arg_init True) =
     Inr \<lparr>allow_fd = True, path = Some ''/mnt'', fd = - 1, length_f = 4,
          object = Some (PyBytes ''/mnt''), cleanup = None\<rparr> \<and>
   path_converter (Some (PyLong 3)) (path_arg_init True) =
     Inr \<lparr>allow_fd = True, path = None, fd = 3, length_f = 0, object = Some (PyLong 3),
          cleanup = None\<rparr> \<and>
   (3::int) \<le> INT_MAX"
proof -
  let ?a = "\<lparr>allow_fd = True, path = Some ''/mnt'', fd = - 1, length_f = 4,
      object = Some (PyBytes ''/mnt''), cleanup = None\<rparr>"
  let ?b = "\<lparr>allow_fd = True, path = None, fd = 3, length_f = 0, object = Some (PyLong 3),
      cleanup = None\<rparr>"
  have a: "path_converter (Some (PyBytes ''/mnt'')) (path_arg_init True) = Inr ?a"
    by (simp add: path_converter_bytes path_arg_init_def)
  have b: "path_converter (Some (PyLong 3)) (path_arg_init True) = Inr ?b"
    by (simp add: path_converter_PyLong path_arg_init_def INT_MAX_def)
  show ?thesis
    using a b one_variant [OF a] one_variant [OF b] by simp
qed

section \<open>The error type\<close>

lemma PyInit_tp_base:
  "PyInit_btrfsutil env st = (mo, st') \<Longrightarrow> BtrfsUtilError_tp_base st' = Some PyExc_OSError"
  by (auto simp add: PyInit_btrfsutil_def Let_def split: if_splits)

lemma PyInit_attr:
  "PyInit_btrfsutil env st = (Some m, st') \<Longrightarrow>
   map_of (m_attrs m) ''BtrfsUtilError'' = Some (TypeObject BtrfsUtilError_type)"
  by (auto simp add: PyInit_btrfsutil_def Let_def PyModule_AddObject_def
      add_module_constants_def btrfsutilmodule_def split: if_splits)

lemma tp_mro_BtrfsUtilError:
  "BtrfsUtilError_tp_base st = Some PyExc_OSError \<Longrightarrow>
   tp_mro st BtrfsUtilError_type =
     [BtrfsUtilError_type, PyExc_OSError, PyExc_Exception, PyExc_BaseException,
      PyBaseObject_Type]"
  by (simp add: tp_mro_def)

lemma wait_on_payload:
  "wait_on sys pth d t = Inl (ControlError ce) \<Longrightarrow>
   ce = \<lparr>ce_operation = OpWaitSync, ce_path = pth,
         ce_system_error_code = sys_wait_sync sys d t\<rparr>"
  by (auto simp add: wait_on_def Let_def split: if_splits)

lemma WaitSync_payload:
  assumes "WaitSync sys target tid = (Inl (ControlError ce), log)"
  shows "ce_operation ce = OpWaitSync \<and> ce_path ce = target_path target \<and>
     ((\<exists>bs. sys_open sys bs = Inl (ce_system_error_code ce)) \<or>
      (\<exists>d t. sys_wait_sync sys d t = ce_system_error_code ce))"
proof (cases target)
  case (OpenDescriptor d)
  with assms obtain t where "wait_on sys None d t = Inl (ControlError ce)"
    by (auto simp add: WaitSync_def Let_def split: if_splits)
  then have "ce = \<lparr>ce_operation = OpWaitSync, ce_path = None,
      ce_system_error_code = sys_wait_sync sys d t\<rparr>"
    by (rule wait_on_payload)
  with OpenDescriptor show ?thesis by auto
next
  case (TextualPath bs)
  show ?thesis
  proof (cases "sys_open sys bs")
    case (Inl errno)
    with assms TextualPath
    have "ce = \<lparr>ce_operation = OpWaitSync, ce_path = Some bs, ce_system_error_code = errno\<rparr>"
      by (auto simp add: WaitSync_def Let_def split: if_splits)
    with Inl TextualPath show ?thesis by auto
  next
    case (Inr d)
    with assms TextualPath obtain t where "wait_on sys (Some bs) d t = Inl (ControlError ce)"
      by (auto simp add: WaitSync_def Let_def split: if_splits)
    then have "ce = \<lparr>ce_operation = OpWaitSync, ce_path = Some bs,
        ce_system_error_code = sys_wait_sync sys d t\<rparr>"
      by (rule wait_on_payload)
    with TextualPath show ?thesis by auto
  qed
qed

text \<open>
  C7: \<^verbatim>\<open>PyInit_btrfsutil\<close> makes \<^verbatim>\<open>OSError\<close> the base of \<^verbatim>\<open>BtrfsUtilError\<close>, whether or not
  the rest of the initialisation succeeds; the type is then a subtype of \<^verbatim>\<open>OSError\<close>, is
  no subtype of \<^verbatim>\<open>TypeError\<close> or \<^verbatim>\<open>ValueError\<close> and no supertype of them, and a module
  that is returned exports it under the name \<^verbatim>\<open>BtrfsUtilError\<close>. The control error of a
  failed request carries the operation, the path when the target is a path, and an error
  code that the system returned.
\<close>

theorem BtrfsUtilError_derives_OSError:
  assumes init: "PyInit_btrfsutil env st = (mo, st')"
  shows "BtrfsUtilError_tp_base st' = Some PyExc_OSError \<and>
     PyType_IsSubtype st' BtrfsUtilError_type PyExc_OSError \<and>
     \<not> PyType_IsSubtype st' BtrfsUtilError_type PyExc_TypeError \<and>
     \<not> PyType_IsSubtype st' BtrfsUtilError_type PyExc_ValueError \<and>
     \<not> PyType_IsSubtype st' PyExc_TypeError BtrfsUtilError_type \<and>
     \<not> PyType_IsSubtype st' PyExc_ValueError BtrfsUtilError_type \<and>
     (\<forall>m. mo = Some m \<longrightarrow>
        map_of (m_attrs m) ''BtrfsUtilError'' = Some (TypeObject BtrfsUtilError_type)) \<and>
     (\<forall>ce log. WaitSync sys target tid = (Inl (ControlError ce), log) \<longrightarrow>
        ce_operation ce = OpWaitSync \<and> ce_path ce = target_path target \<and>
        ((\<exists>bs. sys_open sys bs = Inl (ce_system_error_code ce)) \<or>
         (\<exists>d t. sys_wait_sync sys d t = ce_system_error_code ce)))"
proof -
  from init have base: "BtrfsUtilError_tp_base st' = Some PyExc_OSError"
    by (rule PyInit_tp_base)
  then have mro: "tp_mro st' BtrfsUtilError_type =
      [BtrfsUtilError_type, PyExc_OSError, PyExc_Exception, PyExc_BaseException,
       PyBaseObject_Type]"
    by (rule tp_mro_BtrfsUtilError)
  have sub: "PyType_IsSubtype st' BtrfsUtilError_type PyExc_OSError"
    by (simp add: PyType_IsSubtype_def mro)
  have n1: "\<not> PyType_IsSubtype st' BtrfsUtilError_type PyExc_TypeError"
    by (simp add: PyType_IsSubtype_def mro)
  have n2: "\<not> PyType_IsSubtype st' BtrfsUtilError_type PyExc_ValueError"
    by (simp add: PyType_IsSubtype_def mro)
  have n3: "\<not> PyType_IsSubtype st' PyExc_TypeError BtrfsUtilError_type"
    by (simp add: PyType_IsSubtype_def tp_mro_def)
  have n4: "\<not> PyType_IsSubtype st' PyExc_ValueError BtrfsUtilError_type"
    by (simp add: PyType_IsSubtype_def tp_mro_def)
  have attr: "\<forall>m. mo = Some m \<longrightarrow>
      map_of (m_attrs m) ''BtrfsUtilError'' = Some (TypeObject BtrfsUtilError_type)"
    using init by (auto dest: PyInit_attr)
  have payload: "\<forall>ce log. WaitSync sys target tid = (Inl (ControlError ce), log) \<longrightarrow>
      ce_operation ce = OpWaitSync \<and> ce_path ce = target_path target \<and>
      ((\<exists>bs. sys_open sys bs = Inl (ce_system_error_code ce)) \<or>
       (\<exists>d t. sys_wait_sync sys d t = ce_system_error_code ce))"
    using WaitSync_payload by blast
  from base sub n1 n2 n3 n4 attr payload show ?thesis by blast
qed

theorem BtrfsUtilError_derives_OSError_witness:
  "fst (PyInit_btrfsutil
      \<lparr>ready_BtrfsUtilError = 0, ready_QgroupInherit = 0, create_ok = True,
       module_constants = [(''ERROR_SYNC_FAILED'', 12)]\<rparr>
      \<lparr>BtrfsUtilError_tp_base = None, QgroupInherit_tp_new = None\<rparr>) \<noteq> None \<and>
   map_of
     (m_attrs (the (fst (PyInit_btrfsutil
        \<lparr>ready_BtrfsUtilError = 0, ready_QgroupInherit = 0, create_ok = True,
         module_constants = [(''ERROR_SYNC_FAILED'', 12)]\<rparr>
        \<lparr>BtrfsUtilError_tp_base = None, QgroupInherit_tp_new = None\<rparr>))))
     ''BtrfsUtilError'' = Some (TypeObject BtrfsUtilError_type) \<and>
   PyType_IsSubtype
     (snd (PyInit_btrfsutil
        \<lparr>ready_BtrfsUtilError = 0, ready_QgroupInherit = 0, create_ok = True,
         module_constants = [(''ERROR_SYNC_FAILED'', 12)]\<rparr>
        \<lparr>BtrfsUtilError_tp_base = None, QgroupInherit_tp_new = None\<rparr>))
     BtrfsUtilError_type PyExc_OSError \<and>
   WaitSync \<lparr>sys_open = (\<lambda>bs. Inl 2), sys_wait_sync = (\<lambda>d t. 9)\<rparr>
     (OpenDescriptor 12345678) None =
     (Inl (ControlError
        \<lparr>ce_operation = OpWaitSync, ce_path = None, ce_system_error_code = 9\<rparr>),
      [ReqWaitSync 12345678 0]) \<and>
   ce_path \<lparr>ce_operation = OpWaitSync, ce_path = None, ce_system_error_code = 9\<rparr> =
     target_path (OpenDescriptor 12345678)"
proof -
  let ?env = "\<lparr>ready_BtrfsUtilError = 0, ready_QgroupInherit = 0, create_ok = True,
      module_constants = [(''ERROR_SYNC_FAILED'', 12)]\<rparr>"
  let ?st = "\<lparr>BtrfsUtilError_tp_base = None, QgroupInherit_tp_new = None\<rparr>"
  let ?sys = "\<lparr>sys_open = (\<lambda>bs. Inl 2), sys_wait_sync = (\<lambda>d t. 9)\<rparr>"
  let ?ce = "\<lparr>ce_operation = OpWaitSync, ce_path = None, ce_system_error_code = 9\<rparr>"
  have i: "PyInit_btrfsutil ?env ?st =
      (fst (PyInit_btrfsutil ?env ?st), snd (PyInit_btrfsutil ?env ?st))"
    by simp
  have m: "fst (PyInit_btrfsutil ?env ?st) \<noteq> None"
    by (simp add: PyInit_btrfsutil_def)
  have w: "WaitSync ?sys (OpenDescriptor 12345678) None =
      (Inl (ControlError ?ce), [ReqWaitSync 12345678 0])"
    by (simp add: WaitSync_def wait_on_def)
  show ?thesis
    using m w BtrfsUtilError_derives_OSError [OF i, of ?sys "OpenDescriptor 12345678" None]
    by auto
qed

section \<open>Waiting for a transaction\<close>

text \<open>
  C8: \<^verbatim>\<open>WaitSync\<close> with the transaction identifier given as 0 and with the identifier
  omitted have the same result and make the same requests, for every target and system;
  the method table documents the default, \<^verbatim>\<open>wait_sync(path, transid=0)\<close>.
\<close>

theorem WaitSync_default:
  "WaitSync sys target (Some 0) = WaitSync sys target None \<and>
   map (\<lambda>m. hd (split_lines [] (ml_doc m))) btrfsutil_methods =
     [''sync(path)'', ''start_sync(path) -> int'', ''wait_sync(path, transid=0)'']"
  by (simp add: WaitSync_def) (simp add: btrfsutil_methods_def nl_def)

text \<open>
  C9: \<^verbatim>\<open>WaitSync\<close> with a negative transaction identifier fails with the invalid-argument
  error, for every target, and the log of requests made to the system is empty.
\<close>

theorem WaitSync_negative:
  "t < 0 \<Longrightarrow> WaitSync sys target (Some t) = (Inl InvalidArgument, [])"
  by (simp add: WaitSync_def)

theorem WaitSync_negative_witness:
  "(- 1 :: int) < 0 \<and>
   WaitSync \<lparr>sys_open = (\<lambda>bs. Inr 3), sys_wait_sync = (\<lambda>d t. 0)\<rparr>
     (TextualPath ''/mnt/test'') (Some (- 1)) = (Inl InvalidArgument, [])"
proof -
  have h: "(- 1 :: int) < 0" by simp
  show ?thesis
    using h WaitSync_negative [OF h, of "\<lparr>sys_open = (\<lambda>bs. Inr 3), sys_wait_sync = (\<lambda>d t. 0)\<rparr>"
        "TextualPath ''/mnt/test''"]
    by simp
qed

theorem WaitSync_default_witness:
  "WaitSync \<lparr>sys_open = (\<lambda>bs. Inr 3), sys_wait_sync = (\<lambda>d t. 0)\<rparr>
     (TextualPath ''/mnt/test'') None =
     (Inr (), [ReqOpen ''/mnt/test'', ReqWaitSync 3 0, ReqClose 3]) \<and>
   WaitSync \<lparr>sys_open = (\<lambda>bs. Inr 3), sys_wait_sync = (\<lambda>d t. 0)\<rparr>
     (TextualPath ''/mnt/test'') (Some 0) =
   WaitSync \<lparr>sys_open = (\<lambda>bs. Inr 3), sys_wait_sync = (\<lambda>d t. 0)\<rparr>
     (TextualPath ''/mnt/test'') None"
  using WaitSync_default [of "\<lparr>sys_open = (\<lambda>bs. Inr 3), sys_wait_sync = (\<lambda>d t. 0)\<rparr>"
      "TextualPath ''/mnt/test''"]
  by (simp add: WaitSync_def wait_on_def)

end
